theory Spec2Isabelle
  imports Main "HOL-Library.Sublist"
begin

section \<open>The prediction endpoint \<^verbatim>\<open>netlify/functions/gemini-predict.js\<close>\<close>

text \<open>
  The file exports one function, \<^verbatim>\<open>handler(event, context)\<close>. It rejects every method but
  POST, parses the request body, asks the Gemini API for a prediction, validates the
  answer, parses its text as JSON, inserts one row into the \<^verbatim>\<open>predictions\<close> table and
  returns that row; every exception raised on the way is caught by one outer
  \<^verbatim>\<open>catch\<close>, which chooses a status code by looking for substrings in the error message.

  The embedding is shallow. The collaborators the handler calls but does not define
  (\<^verbatim>\<open>JSON.parse\<close>, \<^verbatim>\<open>JSON.stringify\<close>, the Gemini client, the Supabase client) are the fields
  of an environment record; an exception is the left summand of a sum type; the outbound
  calls and the console output are recorded, in program order, in a list of effects that
  the handler returns next to its HTTP response.
\<close>

subsection \<open>Strings\<close>

text \<open>
  A JavaScript string is modelled by a \<^typ>\<open>string\<close> whose characters are the code units
  \<^verbatim>\<open>U+0000\<close> to \<^verbatim>\<open>U+00FF\<close>. On these \<^verbatim>\<open>String.prototype.toLowerCase\<close> works character by
  character: it adds 32 to \<^verbatim>\<open>A\<close>..\<^verbatim>\<open>Z\<close> and to \<^verbatim>\<open>U+00C0\<close>..\<^verbatim>\<open>U+00DE\<close> (the multiplication sign
  \<^verbatim>\<open>U+00D7\<close> excepted) and leaves every other code unit alone. Adding 32 sets the bit of
  weight 32, which is clear in all of these.
\<close>

fun toLowerCase_char :: "char \<Rightarrow> char" where
  "toLowerCase_char (Char b0 b1 b2 b3 b4 b5 b6 b7) =
     (let n = (of_char (Char b0 b1 b2 b3 b4 b5 b6 b7) :: nat)
      in if (65 \<le> n \<and> n \<le> 90) \<or> (192 \<le> n \<and> n \<le> 222 \<and> n \<noteq> 215)
         then Char b0 b1 b2 b3 b4 True b6 b7
         else Char b0 b1 b2 b3 b4 b5 b6 b7)"

definition toLowerCase :: "string \<Rightarrow> string" where
  "toLowerCase s = map toLowerCase_char s"

text \<open>\<^verbatim>\<open>s.startsWith(p)\<close> and \<^verbatim>\<open>s.includes(p)\<close>, by recursion on the string.\<close>

fun startsWith :: "string \<Rightarrow> string \<Rightarrow> bool" where
  "startsWith s [] = True"
| "startsWith [] (c # cs) = False"
| "startsWith (d # ds) (c # cs) = (d = c \<and> startsWith ds cs)"

fun includes_str :: "string \<Rightarrow> string \<Rightarrow> bool" where
  "includes_str [] p = (p = [])"
| "includes_str (c # cs) p = (startsWith (c # cs) p \<or> includes_str cs p)"

text \<open>
  A value that is a string or \<^verbatim>\<open>undefined\<close> is a \<^typ>\<open>string option\<close>. It is truthy when it
  is a non-empty string; \<^verbatim>\<open>x || d\<close> is \<open>x\<close> when \<open>x\<close> is truthy and \<open>d\<close> otherwise; inside a
  template literal \<^verbatim>\<open>undefined\<close> prints as the word \<^verbatim>\<open>undefined\<close>.
\<close>

definition truthy :: "string option \<Rightarrow> bool" where
  "truthy x = (case x of None \<Rightarrow> False | Some s \<Rightarrow> s \<noteq> [])"

definition or_else :: "string option \<Rightarrow> string \<Rightarrow> string" where
  "or_else x d = (case x of None \<Rightarrow> d | Some s \<Rightarrow> if s = [] then d else s)"

definition interpolate :: "string option \<Rightarrow> string" where
  "interpolate x = (case x of None \<Rightarrow> ''undefined'' | Some s \<Rightarrow> s)"

subsection \<open>Values\<close>

text \<open>
  What \<^verbatim>\<open>JSON.parse\<close> returns, with \<^verbatim>\<open>undefined\<close> added for a property that is absent.
  The handler never computes with a number, so the type of numbers is a parameter.
\<close>

datatype 'n jsval =
    JUndefined
  | JNull
  | JBool bool
  | JNumber 'n
  | JString string
  | JArray "'n jsval list"
  | JObject "(string \<times> 'n jsval) list"

text \<open>
  Reading a property. The handler reads \<^verbatim>\<open>teamA\<close>, \<^verbatim>\<open>teamB\<close> and \<^verbatim>\<open>matchCategory\<close> only; no
  array, string, number or boolean has a property of one of these names.
\<close>

fun get_property :: "'n jsval \<Rightarrow> string \<Rightarrow> 'n jsval" where
  "get_property (JObject kvs) k = (case map_of kvs k of None \<Rightarrow> JUndefined | Some v \<Rightarrow> v)"
| "get_property v k = JUndefined"

fun join_comma :: "string list \<Rightarrow> string" where
  "join_comma [] = []"
| "join_comma [s] = s"
| "join_comma (s # t # ts) = s @ '','' @ join_comma (t # ts)"

text \<open>
  The conversion to a string that a template literal applies to \<^verbatim>\<open>${v}\<close>: an array prints
  its elements joined by commas, \<^verbatim>\<open>null\<close> and \<^verbatim>\<open>undefined\<close> elements as nothing, and an
  object prints as \<^verbatim>\<open>[object Object]\<close>.
\<close>

fun ToString :: "('n \<Rightarrow> string) \<Rightarrow> 'n jsval \<Rightarrow> string" where
  "ToString num JUndefined = ''undefined''"
| "ToString num JNull = ''null''"
| "ToString num (JBool b) = (if b then ''true'' else ''false'')"
| "ToString num (JNumber n) = num n"
| "ToString num (JString s) = s"
| "ToString num (JArray vs) =
     join_comma (map (\<lambda>v. if v = JNull \<or> v = JUndefined then [] else ToString num v) vs)"
| "ToString num (JObject kvs) = ''[object Object]''"

subsection \<open>Errors\<close>

text \<open>
  A thrown value or an error object, of which the handler reads the \<^verbatim>\<open>message\<close> only.
\<close>

datatype js_error = Error (message: "string option")

subsection \<open>The request, the response, the provider's answer\<close>

record event =
  httpMethod :: string
  body :: "string option"

record http_response =
  statusCode :: nat
  headers :: "(string \<times> string) list"
  body :: string

text \<open>
  The envelope that \<^verbatim>\<open>ai.models.generateContent\<close> resolves to. Every field the handler
  reads through \<^verbatim>\<open>?.\<close> may be missing.
\<close>

record Part =
  part_text :: "string option"

record Content =
  parts :: "Part list option"

record Candidate =
  content :: "Content option"
  finishReason :: "string option"

record PromptFeedback =
  blockReason :: "string option"

record GenerateContentResponse =
  candidates :: "Candidate list option"
  promptFeedback :: "PromptFeedback option"

text \<open>
  The argument of \<^verbatim>\<open>ai.models.generateContent\<close>, with the schema language of its
  \<^verbatim>\<open>config.responseSchema\<close>: a type, and where the source gives them a description, the
  properties of an object and the items of an array.
\<close>

datatype Type = STRING | OBJECT | ARRAY | BOOLEAN | INTEGER

datatype Schema =
  Schema (type: Type) (description: "string option")
    (properties: "(string \<times> Schema) list") (items: "Schema option")

record GenerateContentConfig =
  responseMimeType :: string
  responseSchema :: Schema

record generateContent_params =
  model :: string
  contents :: string
  config :: GenerateContentConfig

text \<open>What \<^verbatim>\<open>supabase.from(..).insert(..).select().single()\<close> resolves to.\<close>

record 'n insert_result =
  data :: "'n jsval"
  error :: "js_error option"

subsection \<open>The environment and the effects\<close>

text \<open>
  What the handler is given from outside. \<open>JSON_parse\<close> returns the parsed value or the
  \<^verbatim>\<open>SyntaxError\<close> that \<^verbatim>\<open>JSON.parse\<close> throws; \<open>JSON_stringify\<close> is \<^verbatim>\<open>JSON.stringify\<close>;
  \<open>Number_toString\<close> prints a number inside a template literal; \<open>destructure_TypeError\<close>
  is the error the runtime throws when \<^verbatim>\<open>null\<close> is destructured. \<open>generateContent\<close>
  stands for creating the client and awaiting \<^verbatim>\<open>ai.models.generateContent\<close>: it throws, or
  resolves to the envelope, \<open>None\<close> when that is \<^verbatim>\<open>null\<close> or \<^verbatim>\<open>undefined\<close>.
  \<open>supabase_insert\<close> stands for awaiting the insert chain, which reports a failure in
  the \<^verbatim>\<open>error\<close> of its result and does not throw.

  An effect is a call to one of the two outside services, recorded when the call is made,
  or a line on the console.
\<close>

record 'n env =
  JSON_parse :: "string \<Rightarrow> js_error + 'n jsval"
  JSON_stringify :: "'n jsval \<Rightarrow> string"
  Number_toString :: "'n \<Rightarrow> string"
  destructure_TypeError :: js_error
  generateContent :: "generateContent_params \<Rightarrow> js_error + GenerateContentResponse option"
  supabase_insert :: "'n jsval \<Rightarrow> 'n insert_result"

datatype log_arg = LogText string | LogError js_error

datatype 'n effect =
    GenerateContent generateContent_params
  | Insert "'n jsval"
  | ConsoleWarn string
  | ConsoleError string log_arg

subsection \<open>The schema of the provider's output\<close>

text \<open>The module's constant \<^verbatim>\<open>responseSchema\<close>.\<close>

definition responseSchema :: Schema where
  \<open>responseSchema =
     Schema OBJECT None
       [(''prediction'',
           Schema STRING (Some ''The match outcome prediction, e.g., 'Team A to Win', 'Draw'.'') [] None),
        (''confidence'',
           Schema STRING (Some ''The confidence level for the prediction: 'High', 'Medium', or 'Low'.'') [] None),
        (''drawProbability'',
           Schema STRING (Some ''The estimated probability of a draw, e.g., '25%'.'') [] None),
        (''analysis'',
           Schema STRING (Some ''A detailed, 2-3 paragraph analysis covering team form, tactics, and key matchups.'') [] None),
        (''keyStats'',
           Schema OBJECT None
             [(''teamA_form'',
                 Schema STRING (Some ''Recent form for Team A (last 5 games), e.g., 'WWLDW'.'') [] None),
              (''teamB_form'',
                 Schema STRING (Some ''Recent form for Team B (last 5 games), e.g., 'DLLWW'.'') [] None),
              (''head_to_head'',
                 Schema STRING (Some ''A brief summary of recent head-to-head results.'') [] None)]
             None),
        (''bestBets'',
           Schema ARRAY None []
             (Some (Schema OBJECT None
                [(''category'',
                    Schema STRING (Some ''Betting market category, e.g., 'Match Winner'.'') [] None),
                 (''value'',
                    Schema STRING (Some ''The predicted value for the bet, e.g., 'Team A'.'') [] None),
                 (''reasoning'',
                    Schema STRING (Some ''A brief justification for this bet.'') [] None),
                 (''confidence'',
                    Schema STRING (Some ''Confidence in the bet as a percentage, e.g., '80%'.'') [] None),
                 (''overValue'',
                    Schema STRING (Some ''The 'Over' value for goal-based bets, e.g., 'Over 2.5'.'') [] None),
                 (''overConfidence'',
                    Schema STRING (Some ''Confidence for the 'Over' bet.'') [] None),
                 (''underValue'',
                    Schema STRING (Some ''The 'Under' value for goal-based bets, e.g., 'Under 2.5'.'') [] None),
                 (''underConfidence'',
                    Schema STRING (Some ''Confidence for the 'Under' bet.'') [] None)]
                None))),
        (''availabilityFactors'',
           Schema STRING (Some ''Key injuries or suspensions, or 'No significant availability issues reported.'.'') [] None),
        (''venue'',
           Schema STRING (Some ''The match venue, e.g., 'Anfield, Liverpool'.'') [] None),
        (''kickoffTime'',
           Schema STRING (Some ''The match start time, e.g., '20:00 GMT, Saturday'.'') [] None),
        (''referee'',
           Schema STRING (Some ''The name of the match referee, e.g., 'Michael Oliver'.'') [] None),
        (''leagueContext'',
           Schema OBJECT None
             [(''leagueName'', Schema STRING None [] None),
              (''teamA_position'', Schema STRING None [] None),
              (''teamB_position'', Schema STRING None [] None),
              (''isRivalry'', Schema BOOLEAN None [] None),
              (''isDerby'', Schema BOOLEAN None [] None),
              (''contextualAnalysis'',
                 Schema STRING (Some ''Analysis related to league standings or rivalry context.'') [] None)]
             None),
        (''playerStats'',
           Schema ARRAY None []
             (Some (Schema OBJECT None
                [(''playerName'', Schema STRING None [] None),
                 (''teamName'', Schema STRING None [] None),
                 (''position'', Schema STRING None [] None),
                 (''goals'', Schema INTEGER None [] None),
                 (''assists'', Schema INTEGER None [] None),
                 (''yellowCards'', Schema INTEGER None [] None),
                 (''redCards'', Schema INTEGER None [] None)]
                None))),
        (''goalScorerPredictions'',
           Schema ARRAY None []
             (Some (Schema OBJECT None
                [(''playerName'', Schema STRING None [] None),
                 (''teamName'', Schema STRING None [] None),
                 (''probability'', Schema STRING (Some '''High', 'Medium', or 'Low'.'') [] None),
                 (''reasoning'', Schema STRING None [] None)]
                None)))]
       None\<close>

subsection \<open>The handler\<close>

text \<open>
  \<^verbatim>\<open>const { teamA, teamB, matchCategory } = JSON.parse(event.body)\<close>: destructuring
  \<^verbatim>\<open>null\<close> throws a \<^verbatim>\<open>TypeError\<close>, whose wording is the runtime's; every other value gives
  its three properties, \<^verbatim>\<open>undefined\<close> where one is absent.
\<close>

definition destructure ::
  "'n env \<Rightarrow> 'n jsval \<Rightarrow> js_error + ('n jsval \<times> 'n jsval \<times> 'n jsval)" where
  "destructure env v =
     (if v = JNull \<or> v = JUndefined then Inl (destructure_TypeError env)
      else Inr (get_property v ''teamA'', get_property v ''teamB'',
                get_property v ''matchCategory''))"

definition prompt :: "'n env \<Rightarrow> 'n jsval \<Rightarrow> 'n jsval \<Rightarrow> 'n jsval \<Rightarrow> string" where
  \<open>prompt env teamA teamB matchCategory =
     ''Analyze the upcoming '' @ ToString (Number_toString env) matchCategory
     @ '''s soccer match between '' @ ToString (Number_toString env) teamA
     @ '' (Home) and '' @ ToString (Number_toString env) teamB
     @ '' (Away). Provide a detailed prediction including analysis, key stats, betting tips, and player information.''\<close>

text \<open>The argument of the call to \<^verbatim>\<open>generateContent\<close>.\<close>

definition generateContent_request ::
  "'n env \<Rightarrow> 'n jsval \<Rightarrow> 'n jsval \<Rightarrow> 'n jsval \<Rightarrow> generateContent_params" where
  "generateContent_request env teamA teamB matchCategory =
     \<lparr>model = ''gemini-2.5-pro'',
      contents = prompt env teamA teamB matchCategory,
      config = \<lparr>responseMimeType = ''application/json'',
                responseSchema = responseSchema\<rparr>\<rparr>"

text \<open>\<^verbatim>\<open>response?.candidates?.[0]\<close> and \<^verbatim>\<open>response?.promptFeedback?.blockReason\<close>.\<close>

definition first_candidate :: "GenerateContentResponse option \<Rightarrow> Candidate option" where
  "first_candidate response =
     (case response of
        None \<Rightarrow> None
      | Some r \<Rightarrow> (case candidates r of
                    None \<Rightarrow> None
                  | Some [] \<Rightarrow> None
                  | Some (c # cs) \<Rightarrow> Some c))"

definition prompt_blockReason :: "GenerateContentResponse option \<Rightarrow> string option" where
  "prompt_blockReason response =
     (case response of
        None \<Rightarrow> None
      | Some r \<Rightarrow> (case promptFeedback r of
                    None \<Rightarrow> None
                  | Some f \<Rightarrow> blockReason f))"

text \<open>\<^verbatim>\<open>candidate.content?.parts?.[0]?.text\<close>.\<close>

definition candidate_text :: "Candidate \<Rightarrow> string option" where
  "candidate_text c =
     (case content c of
        None \<Rightarrow> None
      | Some k \<Rightarrow> (case parts k of
                    None \<Rightarrow> None
                  | Some [] \<Rightarrow> None
                  | Some (p # ps) \<Rightarrow> part_text p))"

text \<open>
  The body of \<^verbatim>\<open>if (!candidate || !candidate.content?.parts?.[0]?.text)\<close>: the finish
  reason, \<^verbatim>\<open>NO_CANDIDATE\<close> when there is none, chooses the message; the error is thrown
  after one warning.
\<close>

definition finishReason_or_default :: "Candidate option \<Rightarrow> string" where
  "finishReason_or_default candidate =
     or_else (case candidate of None \<Rightarrow> None | Some c \<Rightarrow> finishReason c) ''NO_CANDIDATE''"

definition userMessage :: "string \<Rightarrow> string" where
  \<open>userMessage reason =
     (if reason = ''SAFETY''
      then ''The AI's response was blocked by its safety filter. Please try a different match-up.''
      else if reason = ''MAX_TOKENS''
      then ''The AI's response was too long and was cut off before it could be completed.''
      else ''The AI did not return a valid prediction. This can happen with very obscure teams or due to network issues.'')\<close>

definition empty_response :: "Candidate option \<Rightarrow> (js_error + string) \<times> 'n effect list" where
  "empty_response candidate =
     (let reason = finishReason_or_default candidate
      in (Inl (Error (Some (userMessage reason))),
          [ConsoleWarn (''Gemini returned an invalid or empty response. Finish Reason: ''
                        @ reason)]))"

text \<open>
  The warning for a candidate that did not finish with \<^verbatim>\<open>STOP\<close>; the handler goes on.
\<close>

definition finish_warning :: "Candidate \<Rightarrow> 'n effect list" where
  "finish_warning c =
     (if finishReason c \<noteq> Some ''STOP''
      then [ConsoleWarn (''Gemini generation finished unexpectedly. Reason: ''
                         @ interpolate (finishReason c))]
      else [])"

text \<open>
  Step 2 of the handler, "Validate the API Response": the prompt-level block first, then
  the candidate and its text, then the warning for a finish reason other than \<^verbatim>\<open>STOP\<close>.
  The result is the thrown error or \<^verbatim>\<open>predictionText\<close>.
\<close>

definition validate_response ::
  "GenerateContentResponse option \<Rightarrow> (js_error + string) \<times> 'n effect list" where
  \<open>validate_response response =
     (let candidate = first_candidate response;
          blockReason = prompt_blockReason response
      in if truthy blockReason then
           (Inl (Error (Some (''The request was blocked by the AI's safety filter (''
                              @ interpolate blockReason
                              @ ''). Please try different team names.''))),
            [ConsoleWarn (''Gemini prompt was blocked for safety reasons: ''
                          @ interpolate blockReason)])
         else
           (case candidate of
              None \<Rightarrow> empty_response candidate
            | Some c \<Rightarrow>
                (case candidate_text c of
                   None \<Rightarrow> empty_response candidate
                 | Some predictionText \<Rightarrow>
                     if predictionText = []
                     then empty_response candidate
                     else (Inr predictionText, finish_warning c))))\<close>

text \<open>
  Step 3, "Save the Prediction to Supabase", and step 4, the 200 response. The insert is
  recorded before its result is looked at.
\<close>

definition prediction_row ::
  "'n jsval \<Rightarrow> 'n jsval \<Rightarrow> 'n jsval \<Rightarrow> 'n jsval \<Rightarrow> 'n jsval" where
  "prediction_row teamA teamB matchCategory predictionData =
     JObject [(''team_a'', teamA),
              (''team_b'', teamB),
              (''match_category'', matchCategory),
              (''prediction_data'', predictionData),
              (''status'', JString ''pending'')]"

definition save_prediction ::
  "'n env \<Rightarrow> 'n jsval \<Rightarrow> (js_error + http_response) \<times> 'n effect list" where
  "save_prediction env row =
     (let result = supabase_insert env row
      in case error result of
           Some dbError \<Rightarrow>
             (Inl (Error (Some (''Failed to save prediction to the database: ''
                                @ interpolate (message dbError)))),
              [Insert row, ConsoleError ''Supabase DB Error:'' (LogError dbError)])
         | None \<Rightarrow>
             (Inr \<lparr>statusCode = 200,
                   headers = [(''Content-Type'', ''application/json'')],
                   body = JSON_stringify env (data result)\<rparr>,
              [Insert row]))"

text \<open>
  What follows \<^verbatim>\<open>await ai.models.generateContent(..)\<close> inside the \<^verbatim>\<open>try\<close> block: the
  validation, the \<^verbatim>\<open>JSON.parse\<close> of the text with its own \<^verbatim>\<open>try\<close>/\<^verbatim>\<open>catch\<close>, which replaces
  the parser's error by a fixed one, and the insert.
\<close>

definition process_response ::
  "'n env \<Rightarrow> 'n jsval \<Rightarrow> 'n jsval \<Rightarrow> 'n jsval \<Rightarrow> GenerateContentResponse option
   \<Rightarrow> (js_error + http_response) \<times> 'n effect list" where
  "process_response env teamA teamB matchCategory response =
     (case validate_response response of
        (Inl e, log) \<Rightarrow> (Inl e, log)
      | (Inr predictionText, log) \<Rightarrow>
          (case JSON_parse env predictionText of
             Inl e \<Rightarrow>
               (Inl (Error (Some ''The AI returned an invalid JSON response. Please try again.'')),
                log @ [ConsoleError ''Failed to parse JSON from Gemini:'' (LogText predictionText)])
           | Inr predictionData \<Rightarrow>
               (case save_prediction env
                       (prediction_row teamA teamB matchCategory predictionData) of
                  (r, log') \<Rightarrow> (r, log @ log'))))"

text \<open>
  The \<^verbatim>\<open>try\<close> block. \<^verbatim>\<open>JSON.parse(event.body)\<close> converts its argument to a string first, so
  a \<^verbatim>\<open>null\<close> body is the text \<^verbatim>\<open>null\<close>. An exception leaves the block with the effects
  performed so far.
\<close>

definition body_text :: "event \<Rightarrow> string" where
  "body_text ev = (case event.body ev of None \<Rightarrow> ''null'' | Some s \<Rightarrow> s)"

definition try_block ::
  "'n env \<Rightarrow> event \<Rightarrow> (js_error + http_response) \<times> 'n effect list" where
  "try_block env ev =
     (case JSON_parse env (body_text ev) of
        Inl e \<Rightarrow> (Inl e, [])
      | Inr v \<Rightarrow>
          (case destructure env v of
             Inl e \<Rightarrow> (Inl e, [])
           | Inr (teamA, teamB, matchCategory) \<Rightarrow>
               (let request = generateContent_request env teamA teamB matchCategory
                in case generateContent env request of
                     Inl e \<Rightarrow> (Inl e, [GenerateContent request])
                   | Inr response \<Rightarrow>
                       (case process_response env teamA teamB matchCategory response of
                          (r, log) \<Rightarrow> (r, GenerateContent request # log)))))"

text \<open>
  The chain of \<^verbatim>\<open>if\<close>s of the \<^verbatim>\<open>catch\<close> block, from the message to the status code and the
  message sent back.
\<close>

definition classify :: "string \<Rightarrow> nat \<times> string" where
  "classify errorMessage =
     (if includes_str (toLowerCase errorMessage) ''api key not valid'' then
        (401, ''[API Key Error] The Gemini API key is invalid or missing. Please check the server configuration.'')
      else if includes_str (toLowerCase errorMessage) ''quota'' then
        (429, ''[Quota Error] The application has exceeded its API usage limit. Please try again later.'')
      else if includes_str errorMessage ''safety filter'' then
        (400, ''[Safety Block] '' @ errorMessage)
      else if includes_str errorMessage ''JSON'' then
        (500, ''[Invalid Response] '' @ errorMessage)
      else if includes_str errorMessage ''database'' then
        (500, ''[Database Error] A problem occurred while saving the prediction.'')
      else if \<not> startsWith errorMessage ''['' then
        (500, ''[Prediction Error] An unexpected issue occurred.'')
      else (500, errorMessage))"

definition error_response :: "'n env \<Rightarrow> nat \<Rightarrow> string \<Rightarrow> http_response" where
  "error_response env code errorMessage =
     \<lparr>statusCode = code,
      headers = [(''Content-Type'', ''application/json'')],
      body = JSON_stringify env (JObject [(''error'', JString errorMessage)])\<rparr>"

definition catch_block :: "'n env \<Rightarrow> js_error \<Rightarrow> http_response \<times> 'n effect list" where
  "catch_block env err =
     (case classify (or_else (message err) ''An unknown error occurred.'') of
        (code, errorMessage) \<Rightarrow>
          (error_response env code errorMessage,
           [ConsoleError ''Error in gemini-predict function:'' (LogError err)]))"

text \<open>
  A \<^verbatim>\<open>try\<close> block that returns is the handler's result; one that throws hands the error
  to the \<^verbatim>\<open>catch\<close> block.
\<close>

definition try_catch ::
  "'n env \<Rightarrow> (js_error + http_response) \<times> 'n effect list \<Rightarrow> http_response \<times> 'n effect list" where
  "try_catch env outcome =
     (case outcome of
        (Inr r, log) \<Rightarrow> (r, log)
      | (Inl e, log) \<Rightarrow> (case catch_block env e of (r, log') \<Rightarrow> (r, log @ log')))"

definition handler :: "'n env \<Rightarrow> event \<Rightarrow> http_response \<times> 'n effect list" where
  "handler env ev =
     (if httpMethod ev \<noteq> ''POST'' then
        (\<lparr>statusCode = 405,
          headers = [],
          body = JSON_stringify env (JObject [(''error'', JString ''Method Not Allowed'')])\<rparr>,
         [])
      else try_catch env (try_block env ev))"

subsection \<open>The error classification in the words of the specification\<close>

text \<open>
  "Contains" is the substring relation of the library; "contains, case-insensitive" holds
  when some substring of the message equals the keyword once both are put in lower case.
  The status codes and the order of the tests are those of the specification's error
  classification policy; the messages are those the handler sends.
\<close>

definition contains :: "string \<Rightarrow> string \<Rightarrow> bool" where
  "contains m k = sublist k m"

definition contains_ignoring_case :: "string \<Rightarrow> string \<Rightarrow> bool" where
  "contains_ignoring_case m k = (\<exists>u. sublist u m \<and> toLowerCase u = toLowerCase k)"


subsection \<open>The provider's enumeration of block reasons\<close>


subsection \<open>Observations on a run\<close>

text \<open>
  The inserts of a run, its calls to the two outside services and its console warnings,
  each in the order of the run.
\<close>

fun is_Insert :: "'n effect \<Rightarrow> bool" where
  "is_Insert (Insert row) = True"
| "is_Insert e = False"

fun is_outbound :: "'n effect \<Rightarrow> bool" where
  "is_outbound (GenerateContent q) = True"
| "is_outbound (Insert row) = True"
| "is_outbound e = False"

definition inserts :: "'n effect list \<Rightarrow> 'n effect list" where
  "inserts log = filter is_Insert log"

definition outbound_calls :: "'n effect list \<Rightarrow> 'n effect list" where
  "outbound_calls log = filter is_outbound log"

definition warnings :: "'n effect list \<Rightarrow> 'n effect list" where
  "warnings log = filter (\<lambda>e. case e of ConsoleWarn w \<Rightarrow> True | _ \<Rightarrow> False) log"

text \<open>
  The run up to the provider's answer: the three fields a POST request's body gives, and
  the value the call to the provider resolves to.
\<close>

definition request_fields ::
  "'n env \<Rightarrow> event \<Rightarrow> ('n jsval \<times> 'n jsval \<times> 'n jsval) option" where
  "request_fields env ev =
     (if httpMethod ev \<noteq> ''POST'' then None
      else case JSON_parse env (body_text ev) of
             Inl e \<Rightarrow> None
           | Inr v \<Rightarrow> (case destructure env v of Inl e \<Rightarrow> None | Inr triple \<Rightarrow> Some triple))"

definition provider_answer ::
  "'n env \<Rightarrow> event \<Rightarrow> GenerateContentResponse option option" where
  "provider_answer env ev =
     (case request_fields env ev of
        None \<Rightarrow> None
      | Some (teamA, teamB, matchCategory) \<Rightarrow>
          (case generateContent env (generateContent_request env teamA teamB matchCategory) of
             Inl e \<Rightarrow> None
           | Inr response \<Rightarrow> Some response))"


subsection \<open>A sample environment\<close>

text \<open>
  For the concrete runs below: numbers are their decimal text; the parser knows the three
  documents of the examples and rejects every other text with the message with which
  Node's \<^verbatim>\<open>JSON.parse\<close> rejects a text that ends too early (the empty text is one in
  every version of Node); the provider answers with one candidate that stopped normally;
  the store returns the row it is given, with an \<^verbatim>\<open>id\<close>.
\<close>

definition sample_parse :: "string \<Rightarrow> js_error + string jsval" where
  \<open>sample_parse s =
     (if s = ''{"teamA":"Arsenal","teamB":"Chelsea","matchCategory":"men"}'' then
        Inr (JObject [(''teamA'', JString ''Arsenal''), (''teamB'', JString ''Chelsea''),
                      (''matchCategory'', JString ''men'')])
      else if s = ''{"prediction":"Draw"}'' then
        Inr (JObject [(''prediction'', JString ''Draw'')])
      else if s = ''null'' then Inr JNull
      else Inl (Error (Some ''Unexpected end of JSON input'')))\<close>

fun sample_stringify :: "string jsval \<Rightarrow> string" where
  \<open>sample_stringify JUndefined = ''null''\<close>
| \<open>sample_stringify JNull = ''null''\<close>
| \<open>sample_stringify (JBool b) = (if b then ''true'' else ''false'')\<close>
| \<open>sample_stringify (JNumber n) = n\<close>
| \<open>sample_stringify (JString s) = ''"'' @ s @ ''"''\<close>
| \<open>sample_stringify (JArray vs) = ''['' @ join_comma (map sample_stringify vs) @ '']''\<close>
| \<open>sample_stringify (JObject kvs) =
     ''{'' @ join_comma (map (\<lambda>(k, v). ''"'' @ k @ ''":'' @ sample_stringify v) kvs) @ ''}''\<close>

definition sample_response :: "string option \<Rightarrow> string option \<Rightarrow> string option \<Rightarrow> GenerateContentResponse" where
  "sample_response block finish txt =
     \<lparr>candidates = Some [\<lparr>content = Some \<lparr>parts = Some [\<lparr>part_text = txt\<rparr>]\<rparr>,
                          finishReason = finish\<rparr>],
      promptFeedback = Some \<lparr>blockReason = block\<rparr>\<rparr>"

fun sample_insert :: "string jsval \<Rightarrow> string insert_result" where
  "sample_insert (JObject columns) =
     \<lparr>data = JObject ((''id'', JNumber ''1'') # columns), error = None\<rparr>"
| "sample_insert row = \<lparr>data = JNull, error = Some (Error (Some ''invalid row''))\<rparr>"

definition sample_env :: "string env" where
  \<open>sample_env =
     \<lparr>JSON_parse = sample_parse,
      JSON_stringify = sample_stringify,
      Number_toString = (\<lambda>n. n),
      destructure_TypeError =
        Error (Some ''Cannot destructure property 'teamA' of 'JSON.parse(...)' as it is null.''),
      generateContent =
        (\<lambda>q. Inr (Some (sample_response None (Some ''STOP'') (Some ''{"prediction":"Draw"}'')))),
      supabase_insert = sample_insert\<rparr>\<close>

definition sample_env_answering :: "js_error + GenerateContentResponse option \<Rightarrow> string env" where
  "sample_env_answering answer = sample_env\<lparr>generateContent := (\<lambda>q. answer)\<rparr>"

definition sample_env_failing_insert :: "js_error \<Rightarrow> string env" where
  "sample_env_failing_insert dbError =
     sample_env\<lparr>supabase_insert := (\<lambda>row. \<lparr>data = JNull, error = Some dbError\<rparr>)\<rparr>"

definition sample_event :: event where
  \<open>sample_event =
     \<lparr>httpMethod = ''POST'',
      body = Some ''{"teamA":"Arsenal","teamB":"Chelsea","matchCategory":"men"}''\<rparr>\<close>

section \<open>Properties\<close>

subsection \<open>Searching a string\<close>

lemma startsWith_prefix: "startsWith s p \<longleftrightarrow> prefix p s"
  by (induction s p rule: startsWith.induct) auto

lemma includes_str_sublist: "includes_str s p \<longleftrightarrow> sublist p s"
proof (induction s)
  case Nil
  show ?case by simp
next
  case (Cons c cs)
  show ?case
    using Cons.IH by (simp only: includes_str.simps startsWith_prefix sublist_Cons_right)
qed

lemma sublist_map_iff: "sublist k (map f m) \<longleftrightarrow> (\<exists>u. sublist u m \<and> map f u = k)"
proof
  assume "sublist k (map f m)"
  then obtain ps ss where "map f m = ps @ (k @ ss)"
    unfolding sublist_def by blast
  then have "\<exists>a r. m = a @ r \<and> ps = map f a \<and> k @ ss = map f r"
    by (simp only: map_eq_append_conv)
  then obtain a r where m: "m = a @ r" and r: "map f r = k @ ss"
    by metis
  from r have "\<exists>b c. r = b @ c \<and> k = map f b \<and> ss = map f c"
    by (simp only: map_eq_append_conv)
  then obtain b c where "r = b @ c" "map f b = k"
    by metis
  with m have "m = a @ b @ c" by simp
  with \<open>map f b = k\<close> show "\<exists>u. sublist u m \<and> map f u = k"
    unfolding sublist_def by blast
next
  assume "\<exists>u. sublist u m \<and> map f u = k"
  then obtain u ps ss where "m = ps @ u @ ss" "map f u = k"
    by (auto simp: sublist_def)
  then have "map f m = map f ps @ k @ map f ss" by simp
  then show "sublist k (map f m)"
    unfolding sublist_def by blast
qed

lemma toLowerCase_keywords:
  "toLowerCase ''api key not valid'' = ''api key not valid''"
  "toLowerCase ''quota'' = ''quota''"
  by (simp_all add: toLowerCase_def)

lemma includes_lower_iff:
  "toLowerCase k = k \<Longrightarrow> includes_str (toLowerCase m) k \<longleftrightarrow> contains_ignoring_case m k"
  by (simp add: includes_str_sublist contains_ignoring_case_def toLowerCase_def sublist_map_iff)


subsection \<open>The paths through the handler\<close>

lemma handler_not_POST:
  "httpMethod ev \<noteq> ''POST'' \<Longrightarrow>
   handler env ev =
     (\<lparr>statusCode = 405, headers = [],
       body = JSON_stringify env (JObject [(''error'', JString ''Method Not Allowed'')])\<rparr>, [])"
  by (simp add: handler_def)

lemma handler_body_rejected:
  "httpMethod ev = ''POST'' \<Longrightarrow> JSON_parse env (body_text ev) = Inl e \<Longrightarrow>
   handler env ev = catch_block env e"
  by (simp add: handler_def try_block_def try_catch_def split: prod.splits)

lemma request_fields_SomeD:
  assumes "request_fields env ev = Some (teamA, teamB, matchCategory)"
  shows "httpMethod ev = ''POST''"
    and "\<exists>v. JSON_parse env (body_text ev) = Inr v
             \<and> destructure env v = Inr (teamA, teamB, matchCategory)"
  using assms by (auto simp: request_fields_def split: if_splits sum.splits)

lemma provider_answer_SomeD:
  assumes "provider_answer env ev = Some response"
  shows "\<exists>teamA teamB matchCategory.
           request_fields env ev = Some (teamA, teamB, matchCategory)
           \<and> generateContent env (generateContent_request env teamA teamB matchCategory)
               = Inr response"
  using assms by (auto simp: provider_answer_def split: option.splits sum.splits)

lemma handler_provider_answer:
  assumes "request_fields env ev = Some (teamA, teamB, matchCategory)"
      and "provider_answer env ev = Some response"
  shows "handler env ev =
           try_catch env
             (fst (process_response env teamA teamB matchCategory response),
              GenerateContent (generateContent_request env teamA teamB matchCategory)
              # snd (process_response env teamA teamB matchCategory response))"
proof -
  from assms(1) obtain v where post: "httpMethod ev = ''POST''"
    and v: "JSON_parse env (body_text ev) = Inr v"
    and d: "destructure env v = Inr (teamA, teamB, matchCategory)"
    by (auto dest: request_fields_SomeD)
  from assms have g: "generateContent env (generateContent_request env teamA teamB matchCategory)
      = Inr response"
    by (auto simp: provider_answer_def split: sum.splits)
  show ?thesis
    by (simp add: handler_def try_block_def post v d g Let_def split: prod.splits)
qed

lemma handler_without_answer:
  assumes "httpMethod ev = ''POST''" and "provider_answer env ev = None"
  shows "inserts (snd (handler env ev)) = []"
  using assms
  by (auto simp: handler_def try_block_def try_catch_def catch_block_def inserts_def
      provider_answer_def request_fields_def Let_def
      split: prod.splits sum.splits option.splits if_splits)

subsection \<open>The validation of the provider's answer\<close>

lemma validate_blocked:
  \<open>truthy (prompt_blockReason response) \<Longrightarrow>
   validate_response response =
     (Inl (Error (Some (''The request was blocked by the AI's safety filter (''
                        @ interpolate (prompt_blockReason response)
                        @ ''). Please try different team names.''))),
      [ConsoleWarn (''Gemini prompt was blocked for safety reasons: ''
                    @ interpolate (prompt_blockReason response))])\<close>
  by (simp add: validate_response_def Let_def)

lemma validate_empty:
  assumes "\<not> truthy (prompt_blockReason response)"
      and "first_candidate response = None
           \<or> (\<exists>c. first_candidate response = Some c \<and> \<not> truthy (candidate_text c))"
  shows "validate_response response =
           (Inl (Error (Some (userMessage (finishReason_or_default (first_candidate response))))),
            [ConsoleWarn (''Gemini returned an invalid or empty response. Finish Reason: ''
                          @ finishReason_or_default (first_candidate response))])"
proof (cases "first_candidate response")
  case None
  with assms(1) show ?thesis
    by (simp add: validate_response_def empty_response_def Let_def)
next
  case (Some c)
  with assms(2) have "candidate_text c = None \<or> candidate_text c = Some []"
    by (cases "candidate_text c") (simp_all add: truthy_def)
  with assms(1) Some show ?thesis
    by (auto simp: validate_response_def empty_response_def Let_def)
qed

lemma validate_text:
  assumes "\<not> truthy (prompt_blockReason response)"
      and "first_candidate response = Some c"
      and "candidate_text c = Some predictionText" and "predictionText \<noteq> []"
  shows "validate_response response = (Inr predictionText, finish_warning c)"
  using assms by (simp add: validate_response_def Let_def)

lemma validate_cases:
  obtains
    (blocked) "truthy (prompt_blockReason response)"
  | (no_text) "\<not> truthy (prompt_blockReason response)"
      "first_candidate response = None
       \<or> (\<exists>c. first_candidate response = Some c \<and> \<not> truthy (candidate_text c))"
  | (has_text) c predictionText where "\<not> truthy (prompt_blockReason response)"
      "first_candidate response = Some c" "candidate_text c = Some predictionText"
      "predictionText \<noteq> []"
proof (cases "truthy (prompt_blockReason response)")
  case True
  then show ?thesis by (rule blocked)
next
  case False
  show ?thesis
  proof (cases "first_candidate response")
    case None
    with False show ?thesis by (intro no_text) simp_all
  next
    case (Some c)
    show ?thesis
    proof (cases "truthy (candidate_text c)")
      case True
      then obtain t where "candidate_text c = Some t" "t \<noteq> []"
        by (auto simp: truthy_def split: option.splits)
      with False Some show ?thesis by (intro has_text)
    next
      case nt: False
      with False Some show ?thesis by (intro no_text) simp_all
    qed
  qed
qed

subsection \<open>The inserts of a run\<close>

lemma inserts_simps:
  "inserts [] = []"
  "inserts (Insert row # log) = Insert row # inserts log"
  "inserts (GenerateContent q # log) = inserts log"
  "inserts (ConsoleWarn w # log) = inserts log"
  "inserts (ConsoleError l a # log) = inserts log"
  "inserts (log @ log') = inserts log @ inserts log'"
  by (simp_all add: inserts_def)

lemma inserts_empty_iff: "inserts log = [] \<longleftrightarrow> (\<forall>row. Insert row \<notin> set log)"
proof (induction log)
  case Nil
  show ?case by (simp add: inserts_def)
next
  case (Cons e log)
  then show ?case by (cases e) (auto simp: inserts_def)
qed

lemma inserts_finish_warning: "inserts (finish_warning c) = []"
  by (simp add: finish_warning_def inserts_def)

lemma inserts_catch_block: "inserts (snd (catch_block env e)) = []"
  by (simp add: catch_block_def inserts_def case_prod_beta)

lemma inserts_try_catch: "inserts (snd (try_catch env (r, log))) = inserts log"
  by (cases r) (simp_all add: try_catch_def inserts_simps inserts_catch_block case_prod_beta)

lemma fst_try_catch_Inl: "fst (try_catch env (Inl e, log)) = fst (catch_block env e)"
  by (simp add: try_catch_def split: prod.splits)

lemma fst_try_catch_Inr: "fst (try_catch env (Inr r, log)) = r"
  by (simp add: try_catch_def)

lemma snd_try_catch_Inl: "snd (try_catch env (Inl e, log)) = log @ snd (catch_block env e)"
  by (simp add: try_catch_def split: prod.splits)

lemma snd_try_catch_Inr: "snd (try_catch env (Inr r, log)) = log"
  by (simp add: try_catch_def)

lemma fst_catch_block:
  "fst (catch_block env e) =
     error_response env (fst (classify (or_else (message e) ''An unknown error occurred.'')))
       (snd (classify (or_else (message e) ''An unknown error occurred.'')))"
  by (simp add: catch_block_def split: prod.splits)

lemma snd_catch_block:
  "snd (catch_block env e) = [ConsoleError ''Error in gemini-predict function:'' (LogError e)]"
  by (simp add: catch_block_def split: prod.splits)

subsection \<open>After the provider's answer\<close>

lemma process_blocked:
  \<open>truthy (prompt_blockReason response) \<Longrightarrow>
   process_response env teamA teamB matchCategory response =
     (Inl (Error (Some (''The request was blocked by the AI's safety filter (''
                        @ interpolate (prompt_blockReason response)
                        @ ''). Please try different team names.''))),
      [ConsoleWarn (''Gemini prompt was blocked for safety reasons: ''
                    @ interpolate (prompt_blockReason response))])\<close>
  by (simp add: process_response_def validate_blocked)

lemma process_empty:
  assumes "\<not> truthy (prompt_blockReason response)"
      and "first_candidate response = None
           \<or> (\<exists>c. first_candidate response = Some c \<and> \<not> truthy (candidate_text c))"
  shows "process_response env teamA teamB matchCategory response =
           (Inl (Error (Some (userMessage (finishReason_or_default (first_candidate response))))),
            [ConsoleWarn (''Gemini returned an invalid or empty response. Finish Reason: ''
                          @ finishReason_or_default (first_candidate response))])"
  by (simp add: process_response_def validate_empty [OF assms])

lemma process_unparseable:
  assumes "\<not> truthy (prompt_blockReason response)"
      and "first_candidate response = Some c"
      and "candidate_text c = Some predictionText" and "predictionText \<noteq> []"
      and "JSON_parse env predictionText = Inl e"
  shows "process_response env teamA teamB matchCategory response =
           (Inl (Error (Some ''The AI returned an invalid JSON response. Please try again.'')),
            finish_warning c
            @ [ConsoleError ''Failed to parse JSON from Gemini:'' (LogText predictionText)])"
  by (simp add: process_response_def validate_text [OF assms(1-4)] assms(5))

lemma process_parsed:
  assumes "\<not> truthy (prompt_blockReason response)"
      and "first_candidate response = Some c"
      and "candidate_text c = Some predictionText" and "predictionText \<noteq> []"
      and "JSON_parse env predictionText = Inr predictionData"
  shows "process_response env teamA teamB matchCategory response =
           (fst (save_prediction env (prediction_row teamA teamB matchCategory predictionData)),
            finish_warning c
            @ snd (save_prediction env (prediction_row teamA teamB matchCategory predictionData)))"
  by (simp add: process_response_def validate_text [OF assms(1-4)] assms(5) split: prod.splits)

lemma save_prediction_ok:
  "error (supabase_insert env row) = None \<Longrightarrow>
   save_prediction env row =
     (Inr \<lparr>statusCode = 200, headers = [(''Content-Type'', ''application/json'')],
           body = JSON_stringify env (data (supabase_insert env row))\<rparr>,
      [Insert row])"
  by (simp add: save_prediction_def Let_def)

lemma save_prediction_error:
  "error (supabase_insert env row) = Some dbError \<Longrightarrow>
   save_prediction env row =
     (Inl (Error (Some (''Failed to save prediction to the database: ''
                        @ interpolate (message dbError)))),
      [Insert row, ConsoleError ''Supabase DB Error:'' (LogError dbError)])"
  by (simp add: save_prediction_def Let_def)

lemma inserts_save_prediction: "inserts (snd (save_prediction env row)) = [Insert row]"
  by (cases "error (supabase_insert env row)")
     (simp_all add: save_prediction_ok save_prediction_error inserts_simps)

subsection \<open>Runs that reach the insert\<close>



lemma Insert_in_inserts: "Insert row \<in> set (inserts log) \<longleftrightarrow> Insert row \<in> set log"
  by (auto simp: inserts_def)

lemma run_with_insert:
  assumes "Insert row \<in> set (snd (handler env ev))"
  obtains teamA teamB matchCategory response c predictionText predictionData
  where "request_fields env ev = Some (teamA, teamB, matchCategory)"
    and "provider_answer env ev = Some response"
    and "\<not> truthy (prompt_blockReason response)"
    and "first_candidate response = Some c"
    and "candidate_text c = Some predictionText" and "predictionText \<noteq> []"
    and "JSON_parse env predictionText = Inr predictionData"
    and "row = prediction_row teamA teamB matchCategory predictionData"
    and "handler env ev =
           try_catch env
             (fst (save_prediction env row),
              GenerateContent (generateContent_request env teamA teamB matchCategory)
              # finish_warning c @ snd (save_prediction env row))"
proof -
  from assms have ins: "Insert row \<in> set (inserts (snd (handler env ev)))"
    by (simp only: Insert_in_inserts)
  have post: "httpMethod ev = ''POST''"
  proof (rule ccontr)
    assume "httpMethod ev \<noteq> ''POST''"
    with assms show False by (simp add: handler_not_POST)
  qed
  have "provider_answer env ev \<noteq> None"
  proof
    assume "provider_answer env ev = None"
    from handler_without_answer [OF post this] ins show False by simp
  qed
  then obtain response where a: "provider_answer env ev = Some response" by blast
  then obtain teamA teamB matchCategory
    where f: "request_fields env ev = Some (teamA, teamB, matchCategory)"
    by (auto dest: provider_answer_SomeD)
  note h = handler_provider_answer [OF f a]
  show thesis
  proof (cases response rule: validate_cases)
    case blocked
    from ins show ?thesis
      by (simp add: h process_blocked [OF blocked] inserts_try_catch inserts_simps)
  next
    case no_text
    from ins show ?thesis
      by (simp add: h process_empty [OF no_text] inserts_try_catch inserts_simps)
  next
    case (has_text c predictionText)
    show ?thesis
    proof (cases "JSON_parse env predictionText")
      case (Inl e)
      from ins show ?thesis
        by (simp add: h process_unparseable [OF has_text Inl] inserts_try_catch inserts_simps
            inserts_finish_warning)
    next
      case (Inr predictionData)
      note p = process_parsed [OF has_text Inr, of teamA teamB matchCategory]
      from ins have "row = prediction_row teamA teamB matchCategory predictionData"
        by (simp add: h p inserts_try_catch inserts_simps inserts_finish_warning
            inserts_save_prediction)
      with f a has_text Inr h p show ?thesis
        by (intro that [of teamA teamB matchCategory response c predictionText predictionData])
           simp_all
    qed
  qed
qed

subsection \<open>Evaluating the handler\<close>

text \<open>
  The definitions that a run in the sample environment unfolds, and the sample run itself.
\<close>

lemmas handler_defs =
  handler_def try_catch_def try_block_def body_text_def destructure_def
  generateContent_request_def prompt_def process_response_def validate_response_def
  first_candidate_def prompt_blockReason_def candidate_text_def truthy_def or_else_def
  interpolate_def empty_response_def finishReason_or_default_def userMessage_def
  finish_warning_def save_prediction_def prediction_row_def catch_block_def classify_def
  toLowerCase_def error_response_def request_fields_def provider_answer_def inserts_def
  Let_def

lemmas sample_defs =
  sample_env_def sample_event_def sample_parse_def sample_env_answering_def
  sample_env_failing_insert_def sample_response_def


lemma sample_run:
  \<open>handler sample_env sample_event =
     (\<lparr>statusCode = 200,
       headers = [(''Content-Type'', ''application/json'')],
       body = ''{"id":1,"team_a":"Arsenal","team_b":"Chelsea","match_category":"men","prediction_data":{"prediction":"Draw"},"status":"pending"}''\<rparr>,
      [GenerateContent
         \<lparr>model = ''gemini-2.5-pro'',
          contents = ''Analyze the upcoming men's soccer match between Arsenal (Home) and Chelsea (Away). Provide a detailed prediction including analysis, key stats, betting tips, and player information.'',
          config = \<lparr>responseMimeType = ''application/json'',
                     responseSchema = responseSchema\<rparr>\<rparr>,
       Insert (JObject [(''team_a'', JString ''Arsenal''),
                        (''team_b'', JString ''Chelsea''),
                        (''match_category'', JString ''men''),
                        (''prediction_data'', JObject [(''prediction'', JString ''Draw'')]),
                        (''status'', JString ''pending'')])])\<close>
  by (simp add: handler_defs sample_defs)


subsection \<open>The classification of the handler's own messages\<close>

lemma classify_invalid_JSON:
  "classify ''The AI returned an invalid JSON response. Please try again.''
   = (500, ''[Invalid Response] The AI returned an invalid JSON response. Please try again.'')"
  by (simp add: classify_def toLowerCase_def)

lemma classify_userMessage:
  "classify (userMessage reason) =
     (if reason = ''SAFETY'' then (400, ''[Safety Block] '' @ userMessage ''SAFETY'')
      else (500, ''[Prediction Error] An unexpected issue occurred.''))"
  by (simp add: userMessage_def classify_def toLowerCase_def)

lemma userMessage_distinct:
  "distinct [userMessage ''SAFETY'', userMessage ''MAX_TOKENS'', userMessage ''NO_CANDIDATE'']"
  by (simp add: userMessage_def)

lemma userMessage_other:
  "reason \<noteq> ''SAFETY'' \<Longrightarrow> reason \<noteq> ''MAX_TOKENS'' \<Longrightarrow>
   userMessage reason = userMessage ''NO_CANDIDATE''"
  by (simp add: userMessage_def)

lemma userMessage_nonempty: "userMessage reason \<noteq> []"
  by (simp add: userMessage_def)

subsection \<open>Warnings and outbound calls of a run\<close>

lemma warnings_simps:
  "warnings [] = []"
  "warnings (Insert row # log) = warnings log"
  "warnings (GenerateContent q # log) = warnings log"
  "warnings (ConsoleWarn w # log) = ConsoleWarn w # warnings log"
  "warnings (ConsoleError l a # log) = warnings log"
  "warnings (log @ log') = warnings log @ warnings log'"
  by (simp_all add: warnings_def)

lemma outbound_calls_simps:
  "outbound_calls [] = []"
  "outbound_calls (Insert row # log) = Insert row # outbound_calls log"
  "outbound_calls (GenerateContent q # log) = GenerateContent q # outbound_calls log"
  "outbound_calls (ConsoleWarn w # log) = outbound_calls log"
  "outbound_calls (ConsoleError l a # log) = outbound_calls log"
  "outbound_calls (log @ log') = outbound_calls log @ outbound_calls log'"
  by (simp_all add: outbound_calls_def)

lemma finish_warning_filters:
  "warnings (finish_warning c) = finish_warning c" "outbound_calls (finish_warning c) = []"
  by (simp_all add: finish_warning_def warnings_simps outbound_calls_simps)

lemma save_prediction_filters:
  "warnings (snd (save_prediction env row)) = []"
  "outbound_calls (snd (save_prediction env row)) = [Insert row]"
  by (cases "error (supabase_insert env row)";
      simp add: save_prediction_ok save_prediction_error warnings_simps outbound_calls_simps)+

lemma try_catch_filters:
  "warnings (snd (try_catch env (r, log))) = warnings log"
  "outbound_calls (snd (try_catch env (r, log))) = outbound_calls log"
  by (cases r; simp add: snd_try_catch_Inl snd_try_catch_Inr snd_catch_block warnings_simps
      outbound_calls_simps)+

lemma fst_try_catch_log: "fst (try_catch env (r, log)) = fst (try_catch env (r, log'))"
  by (cases r) (simp_all add: fst_try_catch_Inl fst_try_catch_Inr)

lemma insert_error_run:
  assumes "Insert row \<in> set (snd (handler env ev))"
      and "error (supabase_insert env row) = Some dbError"
  shows "fst (handler env ev) =
           fst (catch_block env
                  (Error (Some (''Failed to save prediction to the database: ''
                                @ interpolate (message dbError)))))
         \<and> inserts (snd (handler env ev)) = [Insert row]"
proof -
  from assms(1) obtain teamA teamB matchCategory c
    where h: "handler env ev =
           try_catch env
             (fst (save_prediction env row),
              GenerateContent (generateContent_request env teamA teamB matchCategory)
              # finish_warning c @ snd (save_prediction env row))"
    by (rule run_with_insert)
  show ?thesis
    by (simp add: h save_prediction_error [OF assms(2)] fst_try_catch_Inl inserts_try_catch
        inserts_simps inserts_finish_warning)
qed

subsection \<open>Messages that carry a text from outside\<close>

text \<open>
  Two of the messages the handler throws quote a text it was given: the block reason and
  the store's error message. The keywords of the \<^verbatim>\<open>catch\<close> block are searched in the whole
  message, and the fixed part around the quoted text cannot complete a keyword, so the
  quoted text alone decides the tests that come before the intended one.
\<close>

lemma sublist_separator:
  assumes "c \<notin> set k"
  shows "sublist k (p @ c # s) \<longleftrightarrow> sublist k p \<or> sublist k s"
proof -
  have "sublist k p" if "k = k1 @ k2" "suffix k1 p" "prefix k2 (c # s)" for k1 k2
  proof (cases k2)
    case Nil
    with that show ?thesis by (auto simp: suffix_def)
  next
    case (Cons d k2')
    with that(3) have "d = c" by simp
    with Cons that(1) assms show ?thesis by simp
  qed
  moreover have "sublist k s" if "prefix k (c # s)"
  proof (cases k)
    case Nil
    then show ?thesis by simp
  next
    case (Cons d k')
    with that have "d = c" by simp
    with Cons assms show ?thesis by simp
  qed
  ultimately show ?thesis
    by (auto simp: sublist_append sublist_Cons_right)
qed

lemma includes_blocked_message:
  assumes "CHR ''('' \<notin> set k" and "CHR '')'' \<notin> set k"
      and \<open>\<not> includes_str (toLowerCase ''The request was blocked by the AI's safety filter '') k\<close>
      and "\<not> includes_str (toLowerCase ''. Please try different team names.'') k"
  shows \<open>includes_str
           (toLowerCase (''The request was blocked by the AI's safety filter ('' @ reason
                         @ ''). Please try different team names.'')) k
         \<longleftrightarrow> sublist k (toLowerCase reason)\<close>
proof -
  have \<open>toLowerCase (''The request was blocked by the AI's safety filter ('' @ reason
                      @ ''). Please try different team names.'')
        = toLowerCase ''The request was blocked by the AI's safety filter ''
          @ CHR ''('' # (toLowerCase reason
          @ CHR '')'' # toLowerCase ''. Please try different team names.'')\<close>
    by (simp add: toLowerCase_def)
  then show ?thesis
    using assms(3,4)
    by (simp only: includes_str_sublist sublist_separator [OF assms(1)]
        sublist_separator [OF assms(2)]) blast
qed

lemma classify_blocked_any_reason:
  \<open>classify (''The request was blocked by the AI's safety filter ('' @ reason
             @ ''). Please try different team names.'') =
     (if contains_ignoring_case reason ''api key not valid'' then
        (401, ''[API Key Error] The Gemini API key is invalid or missing. Please check the server configuration.'')
      else if contains_ignoring_case reason ''quota'' then
        (429, ''[Quota Error] The application has exceeded its API usage limit. Please try again later.'')
      else (400, ''[Safety Block] The request was blocked by the AI's safety filter ('' @ reason
                 @ ''). Please try different team names.''))\<close>
proof -
  have c: "sublist k (toLowerCase reason) \<longleftrightarrow> contains_ignoring_case reason k"
    if "toLowerCase k = k" for k
    using includes_lower_iff [OF that, of reason] by (simp only: includes_str_sublist)
  have side:
    "CHR ''('' \<notin> set ''api key not valid''" "CHR '')'' \<notin> set ''api key not valid''"
    \<open>\<not> includes_str (toLowerCase ''The request was blocked by the AI's safety filter '')
         ''api key not valid''\<close>
    "\<not> includes_str (toLowerCase ''. Please try different team names.'') ''api key not valid''"
    "CHR ''('' \<notin> set ''quota''" "CHR '')'' \<notin> set ''quota''"
    \<open>\<not> includes_str (toLowerCase ''The request was blocked by the AI's safety filter '')
         ''quota''\<close>
    "\<not> includes_str (toLowerCase ''. Please try different team names.'') ''quota''"
    by (simp_all add: toLowerCase_def)
  have a: \<open>includes_str
           (toLowerCase (''The request was blocked by the AI's safety filter ('' @ reason
                         @ ''). Please try different team names.'')) ''api key not valid''
         \<longleftrightarrow> contains_ignoring_case reason ''api key not valid''\<close>
    by (simp only: includes_blocked_message [OF side(1-4)] c [OF toLowerCase_keywords(1)])
  have q: \<open>includes_str
           (toLowerCase (''The request was blocked by the AI's safety filter ('' @ reason
                         @ ''). Please try different team names.'')) ''quota''
         \<longleftrightarrow> contains_ignoring_case reason ''quota''\<close>
    by (simp only: includes_blocked_message [OF side(5-8)] c [OF toLowerCase_keywords(2)])
  have s: \<open>includes_str (''The request was blocked by the AI's safety filter ('' @ reason
                         @ ''). Please try different team names.'') ''safety filter''\<close>
    by simp
  show ?thesis
    unfolding classify_def a q using s by simp
qed

lemma blocked_prompt_any_reason:
  assumes "provider_answer env ev = Some response"
      and "prompt_blockReason response = Some reason" and "reason \<noteq> []"
  shows \<open>fst (handler env ev) =
           (if contains_ignoring_case reason ''api key not valid'' then
              error_response env 401
                ''[API Key Error] The Gemini API key is invalid or missing. Please check the server configuration.''
            else if contains_ignoring_case reason ''quota'' then
              error_response env 429
                ''[Quota Error] The application has exceeded its API usage limit. Please try again later.''
            else
              error_response env 400
                (''[Safety Block] The request was blocked by the AI's safety filter ('' @ reason
                 @ ''). Please try different team names.''))
         \<and> inserts (snd (handler env ev)) = []\<close>
proof -
  from assms(1) obtain teamA teamB matchCategory
    where f: "request_fields env ev = Some (teamA, teamB, matchCategory)"
    by (auto dest: provider_answer_SomeD)
  have t: "truthy (prompt_blockReason response)"
    using assms(2,3) by (simp add: truthy_def)
  note h = handler_provider_answer [OF f assms(1)]
    process_blocked [OF t, of env teamA teamB matchCategory]
  have "fst (handler env ev) =
        fst (catch_block env (Error (Some (''The request was blocked by the AI's safety filter (''
          @ reason @ ''). Please try different team names.''))))"
    by (simp only: h fst_conv snd_conv fst_try_catch_Inl assms(2) interpolate_def option.case)
  moreover have "inserts (snd (handler env ev)) = []"
    by (simp only: h fst_conv snd_conv inserts_try_catch inserts_simps)
  ultimately show ?thesis
    by (simp add: fst_catch_block or_else_def classify_blocked_any_reason
        del: append.simps)
qed

lemma includes_insert_error_message:
  assumes "CHR '':'' \<notin> set k" and "k \<noteq> []" and "hd k \<noteq> CHR '' ''"
      and "\<not> includes_str (f ''Failed to save prediction to the database'') k"
      and "\<And>a b. f (a @ b) = f a @ f b" and "f '': '' = '': ''"
  shows "includes_str (f (''Failed to save prediction to the database: '' @ m)) k
         \<longleftrightarrow> sublist k (f m)"
proof -
  have "f (''Failed to save prediction to the database: '' @ m)
        = f (''Failed to save prediction to the database'' @ '': '' @ m)"
    by simp
  also have "\<dots> = f ''Failed to save prediction to the database'' @ CHR '':'' # (CHR '' '' # f m)"
    by (simp only: assms(5,6)) simp
  finally have e: "f (''Failed to save prediction to the database: '' @ m)
        = f ''Failed to save prediction to the database'' @ CHR '':'' # (CHR '' '' # f m)" .
  have "\<not> prefix k (CHR '' '' # f m)"
    using assms(2,3) by (cases k) simp_all
  then show ?thesis
    using assms(4)
    by (simp only: e includes_str_sublist sublist_separator [OF assms(1)] sublist_Cons_right)
       blast
qed

lemma classify_insert_error:
  "classify (''Failed to save prediction to the database: '' @ m) =
     (if contains_ignoring_case m ''api key not valid'' then
        (401, ''[API Key Error] The Gemini API key is invalid or missing. Please check the server configuration.'')
      else if contains_ignoring_case m ''quota'' then
        (429, ''[Quota Error] The application has exceeded its API usage limit. Please try again later.'')
      else if contains m ''safety filter'' then
        (400, ''[Safety Block] Failed to save prediction to the database: '' @ m)
      else if contains m ''JSON'' then
        (500, ''[Invalid Response] Failed to save prediction to the database: '' @ m)
      else (500, ''[Database Error] A problem occurred while saving the prediction.''))"
proof -
  have l: "toLowerCase (a @ b) = toLowerCase a @ toLowerCase b" for a b
    by (simp add: toLowerCase_def)
  have c: "sublist k (toLowerCase m) \<longleftrightarrow> contains_ignoring_case m k"
    if "toLowerCase k = k" for k
    using includes_lower_iff [OF that, of m] by (simp only: includes_str_sublist)
  have a: "includes_str (toLowerCase (''Failed to save prediction to the database: '' @ m))
             ''api key not valid''
           \<longleftrightarrow> contains_ignoring_case m ''api key not valid''"
    by (subst includes_insert_error_message [of _ toLowerCase])
       (simp_all add: l c [OF toLowerCase_keywords(1)], simp_all add: toLowerCase_def)
  have q: "includes_str (toLowerCase (''Failed to save prediction to the database: '' @ m))
             ''quota''
           \<longleftrightarrow> contains_ignoring_case m ''quota''"
    by (subst includes_insert_error_message [of _ toLowerCase])
       (simp_all add: l c [OF toLowerCase_keywords(2)], simp_all add: toLowerCase_def)
  have s: "includes_str (''Failed to save prediction to the database: '' @ m) ''safety filter''
           \<longleftrightarrow> contains m ''safety filter''"
    using includes_insert_error_message [of "''safety filter''" "\<lambda>s. s" m]
    by (simp add: contains_def)
  have j: "includes_str (''Failed to save prediction to the database: '' @ m) ''JSON''
           \<longleftrightarrow> contains m ''JSON''"
    using includes_insert_error_message [of "''JSON''" "\<lambda>s. s" m]
    by (simp add: contains_def)
  have d: "includes_str (''Failed to save prediction to the database: '' @ m) ''database''"
    by simp
  show ?thesis
    unfolding classify_def a q s j using d by simp
qed

lemma insert_error_response:
  assumes "Insert row \<in> set (snd (handler env ev))"
      and "error (supabase_insert env row) = Some dbError"
  shows "fst (handler env ev) =
           error_response env
             (fst (classify (''Failed to save prediction to the database: ''
                             @ interpolate (message dbError))))
             (snd (classify (''Failed to save prediction to the database: ''
                             @ interpolate (message dbError))))"
proof -
  have "''Failed to save prediction to the database: '' @ interpolate (message dbError) \<noteq> []"
    by simp
  then have "or_else (Some (''Failed to save prediction to the database: ''
                           @ interpolate (message dbError))) ''An unknown error occurred.''
             = ''Failed to save prediction to the database: '' @ interpolate (message dbError)"
    unfolding or_else_def by (simp only: option.case if_False)
  with insert_error_run [OF assms] show ?thesis
    by (simp only: fst_catch_block js_error.sel)
qed

subsection \<open>The saved prediction\<close>



subsection \<open>The classification of a caught error\<close>


subsection \<open>A blocked prompt\<close>



subsection \<open>Text that is not JSON\<close>

text \<open>
  C4, as stated, fails for an answer that carries both a block reason and text that is
  not JSON: the block reason is looked at first, and the answer is the 400 of a blocked
  prompt.
\<close>

theorem unparseable_text_of_blocked_prompt_counterexample:
  \<open>provider_answer
      (sample_env_answering
         (Inr (Some (sample_response (Some ''SAFETY'') (Some ''STOP'')
                       (Some ''{"prediction":"Dr'')))))
      sample_event
    = Some (Some (sample_response (Some ''SAFETY'') (Some ''STOP'') (Some ''{"prediction":"Dr'')))
   \<and> first_candidate
        (Some (sample_response (Some ''SAFETY'') (Some ''STOP'') (Some ''{"prediction":"Dr'')))
       = Some \<lparr>content = Some \<lparr>parts = Some [\<lparr>part_text = Some ''{"prediction":"Dr''\<rparr>]\<rparr>,
               finishReason = Some ''STOP''\<rparr>
   \<and> JSON_parse
        (sample_env_answering
           (Inr (Some (sample_response (Some ''SAFETY'') (Some ''STOP'')
                         (Some ''{"prediction":"Dr'')))))
        ''{"prediction":"Dr''
       = Inl (Error (Some ''Unexpected end of JSON input''))
   \<and> fst (handler
             (sample_env_answering
                (Inr (Some (sample_response (Some ''SAFETY'') (Some ''STOP'')
                              (Some ''{"prediction":"Dr'')))))
             sample_event)
       = \<lparr>statusCode = 400,
          headers = [(''Content-Type'', ''application/json'')],
          body = ''{"error":"[Safety Block] The request was blocked by the AI's safety filter (SAFETY). Please try different team names."}''\<rparr>\<close>
  by (simp add: handler_defs sample_defs)

text \<open>
  C4, amended. When the provider's answer carries no block reason and its first candidate
  has non-empty text that \<^verbatim>\<open>JSON.parse\<close> rejects, the handler answers with status 500 and
  the message \<^verbatim>\<open>[Invalid Response] The AI returned an invalid JSON response. Please try again.\<close>,
  and no insert is made.
\<close>

theorem unparseable_text:
  assumes "provider_answer env ev = Some response"
      and "\<not> truthy (prompt_blockReason response)"
      and "first_candidate response = Some c"
      and "candidate_text c = Some predictionText" and "predictionText \<noteq> []"
      and "JSON_parse env predictionText = Inl e"
  shows "fst (handler env ev) =
           error_response env 500
             ''[Invalid Response] The AI returned an invalid JSON response. Please try again.''
         \<and> inserts (snd (handler env ev)) = []"
proof -
  from assms(1) obtain teamA teamB matchCategory
    where f: "request_fields env ev = Some (teamA, teamB, matchCategory)"
    by (auto dest: provider_answer_SomeD)
  note h = handler_provider_answer [OF f assms(1)]
    process_unparseable [OF assms(2-6), of teamA teamB matchCategory]
  have "fst (handler env ev) =
          fst (catch_block env
                 (Error (Some ''The AI returned an invalid JSON response. Please try again.'')))"
    by (simp only: h fst_conv snd_conv fst_try_catch_Inl)
  moreover have "inserts (snd (handler env ev)) = []"
    by (simp only: h fst_conv snd_conv inserts_try_catch inserts_simps inserts_finish_warning
        append_Nil)
  ultimately show ?thesis
    by (simp add: fst_catch_block or_else_def classify_invalid_JSON)
qed

theorem unparseable_text_witness:
  \<open>provider_answer
      (sample_env_answering
         (Inr (Some (sample_response None (Some ''STOP'') (Some ''{"prediction":"Dr'')))))
      sample_event
    = Some (Some (sample_response None (Some ''STOP'') (Some ''{"prediction":"Dr'')))
   \<and> \<not> truthy (prompt_blockReason
         (Some (sample_response None (Some ''STOP'') (Some ''{"prediction":"Dr''))))
   \<and> JSON_parse
        (sample_env_answering
           (Inr (Some (sample_response None (Some ''STOP'') (Some ''{"prediction":"Dr'')))))
        ''{"prediction":"Dr''
       = Inl (Error (Some ''Unexpected end of JSON input''))
   \<and> fst (handler
             (sample_env_answering
                (Inr (Some (sample_response None (Some ''STOP'') (Some ''{"prediction":"Dr'')))))
             sample_event)
       = \<lparr>statusCode = 500,
          headers = [(''Content-Type'', ''application/json'')],
          body = ''{"error":"[Invalid Response] The AI returned an invalid JSON response. Please try again."}''\<rparr>
   \<and> inserts (snd (handler
             (sample_env_answering
                (Inr (Some (sample_response None (Some ''STOP'') (Some ''{"prediction":"Dr'')))))
             sample_event)) = []\<close>
proof -
  let ?response = \<open>sample_response None (Some ''STOP'') (Some ''{"prediction":"Dr'')\<close>
  let ?env = "sample_env_answering (Inr (Some ?response))"
  have a: "provider_answer ?env sample_event = Some (Some ?response)"
    by (simp add: handler_defs sample_defs)
  have b: "\<not> truthy (prompt_blockReason (Some ?response))"
    by (simp add: prompt_blockReason_def sample_response_def truthy_def)
  have c: \<open>first_candidate (Some ?response)
     = Some \<lparr>content = Some \<lparr>parts = Some [\<lparr>part_text = Some ''{"prediction":"Dr''\<rparr>]\<rparr>,
             finishReason = Some ''STOP''\<rparr>\<close>
    by (simp add: first_candidate_def sample_response_def)
  have t: \<open>candidate_text
       \<lparr>content = Some \<lparr>parts = Some [\<lparr>part_text = Some ''{"prediction":"Dr''\<rparr>]\<rparr>,
        finishReason = Some ''STOP''\<rparr>
     = Some ''{"prediction":"Dr''\<close>
    by (simp add: candidate_text_def)
  have n: \<open>''{"prediction":"Dr'' \<noteq> []\<close>
    by simp
  have d: \<open>JSON_parse ?env ''{"prediction":"Dr''
     = Inl (Error (Some ''Unexpected end of JSON input''))\<close>
    by (simp add: sample_defs)
  from unparseable_text [OF a b c t n d] a b d show ?thesis
    by (simp add: error_response_def sample_env_answering_def sample_env_def)
qed

subsection \<open>A failed insert\<close>

text \<open>
  C5. A run in which the store rejects the insert with the message
  \<^verbatim>\<open>JSON object requested, multiple (or no) rows returned\<close>: the insert is made once, and
  the response has status 500, but its message is the \<^verbatim>\<open>[Invalid Response]\<close> one, built
  from the store's message, and not the \<^verbatim>\<open>[Database Error]\<close> one. The thrown message
  contains both \<^verbatim>\<open>JSON\<close> and \<^verbatim>\<open>database\<close>, and the \<^verbatim>\<open>catch\<close> block tests for \<^verbatim>\<open>JSON\<close> first.
  By \<open>insert_error_response\<close> and \<open>classify_insert_error\<close> a failed insert is answered
  with the \<^verbatim>\<open>[Database Error]\<close> message exactly when the store's message contains none
  of the four keywords tested before \<^verbatim>\<open>database\<close>.
\<close>

theorem insert_error_reported_as_invalid_response:
  \<open>supabase_insert
      (sample_env_failing_insert
         (Error (Some ''JSON object requested, multiple (or no) rows returned'')))
      (JObject [(''team_a'', JString ''Arsenal''),
                (''team_b'', JString ''Chelsea''),
                (''match_category'', JString ''men''),
                (''prediction_data'', JObject [(''prediction'', JString ''Draw'')]),
                (''status'', JString ''pending'')])
    = \<lparr>data = JNull,
       error = Some (Error (Some ''JSON object requested, multiple (or no) rows returned''))\<rparr>
   \<and> handler
        (sample_env_failing_insert
           (Error (Some ''JSON object requested, multiple (or no) rows returned'')))
        sample_event
    = (\<lparr>statusCode = 500,
        headers = [(''Content-Type'', ''application/json'')],
        body = ''{"error":"[Invalid Response] Failed to save prediction to the database: JSON object requested, multiple (or no) rows returned"}''\<rparr>,
       [GenerateContent
          \<lparr>model = ''gemini-2.5-pro'',
           contents = ''Analyze the upcoming men's soccer match between Arsenal (Home) and Chelsea (Away). Provide a detailed prediction including analysis, key stats, betting tips, and player information.'',
           config = \<lparr>responseMimeType = ''application/json'',
                     responseSchema = responseSchema\<rparr>\<rparr>,
        Insert (JObject [(''team_a'', JString ''Arsenal''),
                         (''team_b'', JString ''Chelsea''),
                         (''match_category'', JString ''men''),
                         (''prediction_data'', JObject [(''prediction'', JString ''Draw'')]),
                         (''status'', JString ''pending'')]),
        ConsoleError ''Supabase DB Error:''
          (LogError (Error (Some ''JSON object requested, multiple (or no) rows returned''))),
        ConsoleError ''Error in gemini-predict function:''
          (LogError (Error (Some ''Failed to save prediction to the database: JSON object requested, multiple (or no) rows returned'')))])\<close>
  by (simp add: handler_defs sample_defs)

subsection \<open>A body that is not JSON\<close>

text \<open>
  C6. A POST request with an empty body, which \<^verbatim>\<open>JSON.parse\<close> rejects with the message
  \<^verbatim>\<open>Unexpected end of JSON input\<close>: no outbound call is made, and the response has status
  500, but its message is \<^verbatim>\<open>[Invalid Response]\<close> followed by the parser's message, since
  that message contains \<^verbatim>\<open>JSON\<close>; it is not the generic
  \<^verbatim>\<open>[Prediction Error] An unexpected issue occurred.\<close>
\<close>

theorem malformed_body_reported_as_invalid_response:
  \<open>JSON_parse sample_env (body_text (sample_event\<lparr>event.body := Some ''''\<rparr>))
    = Inl (Error (Some ''Unexpected end of JSON input''))
   \<and> handler sample_env (sample_event\<lparr>event.body := Some ''''\<rparr>)
    = (\<lparr>statusCode = 500,
        headers = [(''Content-Type'', ''application/json'')],
        body = ''{"error":"[Invalid Response] Unexpected end of JSON input"}''\<rparr>,
       [ConsoleError ''Error in gemini-predict function:''
          (LogError (Error (Some ''Unexpected end of JSON input'')))])\<close>
  by (simp add: handler_defs sample_defs)

subsection \<open>An answer without text\<close>

text \<open>
  C7, as stated, fails for a candidate without text whose finish reason is \<^verbatim>\<open>SAFETY\<close>:
  the message thrown for it contains \<^verbatim>\<open>safety filter\<close>, and the status is 400, not 500.
\<close>

theorem empty_response_safety_counterexample:
  \<open>provider_answer
      (sample_env_answering (Inr (Some (sample_response None (Some ''SAFETY'') None))))
      sample_event
    = Some (Some (sample_response None (Some ''SAFETY'') None))
   \<and> first_candidate (Some (sample_response None (Some ''SAFETY'') None))
       = Some \<lparr>content = Some \<lparr>parts = Some [\<lparr>part_text = None\<rparr>]\<rparr>,
               finishReason = Some ''SAFETY''\<rparr>
   \<and> fst (handler
             (sample_env_answering (Inr (Some (sample_response None (Some ''SAFETY'') None))))
             sample_event)
       = \<lparr>statusCode = 400,
          headers = [(''Content-Type'', ''application/json'')],
          body = ''{"error":"[Safety Block] The AI's response was blocked by its safety filter. Please try a different match-up."}''\<rparr>\<close>
  by (simp add: handler_defs sample_defs)

text \<open>
  C7, amended. When the provider's answer carries no block reason and has no first
  candidate, or one without text or with empty text, the handler throws a message chosen
  by the finish reason (three different messages, for \<^verbatim>\<open>SAFETY\<close>, for \<^verbatim>\<open>MAX_TOKENS\<close> and
  for anything else), which the \<^verbatim>\<open>catch\<close> block logs; no insert is made; the status is 400
  with the message \<^verbatim>\<open>[Safety Block]\<close> followed by the thrown one when the finish reason is
  \<^verbatim>\<open>SAFETY\<close>, and 500 otherwise.
\<close>

theorem empty_response_status:
  assumes "provider_answer env ev = Some response"
      and "\<not> truthy (prompt_blockReason response)"
      and "first_candidate response = None
           \<or> (\<exists>c. first_candidate response = Some c \<and> \<not> truthy (candidate_text c))"
  shows "statusCode (fst (handler env ev)) =
           (if finishReason_or_default (first_candidate response) = ''SAFETY'' then 400 else 500)
         \<and> (finishReason_or_default (first_candidate response) = ''SAFETY'' \<longrightarrow>
              fst (handler env ev) =
                error_response env 400 (''[Safety Block] '' @ userMessage ''SAFETY''))
         \<and> ConsoleError ''Error in gemini-predict function:''
              (LogError (Error (Some (userMessage
                                        (finishReason_or_default (first_candidate response))))))
             \<in> set (snd (handler env ev))
         \<and> distinct [userMessage ''SAFETY'', userMessage ''MAX_TOKENS'',
                      userMessage ''NO_CANDIDATE'']
         \<and> inserts (snd (handler env ev)) = []"
proof -
  let ?reason = "finishReason_or_default (first_candidate response)"
  from assms(1) obtain teamA teamB matchCategory
    where f: "request_fields env ev = Some (teamA, teamB, matchCategory)"
    by (auto dest: provider_answer_SomeD)
  note h = handler_provider_answer [OF f assms(1)]
    process_empty [OF assms(2,3), of env teamA teamB matchCategory]
  have r: "fst (handler env ev) = fst (catch_block env (Error (Some (userMessage ?reason))))"
    by (simp only: h fst_conv snd_conv fst_try_catch_Inl)
  have m: "or_else (Some (userMessage reason)) ''An unknown error occurred.''
           = userMessage reason" for reason
    by (simp add: or_else_def userMessage_nonempty)
  have "statusCode (fst (handler env ev)) = (if ?reason = ''SAFETY'' then 400 else 500)"
    by (simp add: r fst_catch_block m classify_userMessage error_response_def)
  moreover have "?reason = ''SAFETY'' \<longrightarrow>
      fst (handler env ev) = error_response env 400 (''[Safety Block] '' @ userMessage ''SAFETY'')"
    by (simp add: r fst_catch_block m classify_userMessage)
  moreover have "ConsoleError ''Error in gemini-predict function:''
      (LogError (Error (Some (userMessage ?reason)))) \<in> set (snd (handler env ev))"
    by (simp add: h snd_try_catch_Inl snd_catch_block)
  moreover have "inserts (snd (handler env ev)) = []"
    by (simp only: h fst_conv snd_conv inserts_try_catch inserts_simps)
  ultimately show ?thesis
    using userMessage_distinct by blast
qed

theorem empty_response_status_witness:
  \<open>provider_answer
      (sample_env_answering (Inr (Some (sample_response None (Some ''MAX_TOKENS'') None))))
      sample_event
    = Some (Some (sample_response None (Some ''MAX_TOKENS'') None))
   \<and> \<not> truthy (prompt_blockReason (Some (sample_response None (Some ''MAX_TOKENS'') None)))
   \<and> first_candidate (Some (sample_response None (Some ''MAX_TOKENS'') None))
       = Some \<lparr>content = Some \<lparr>parts = Some [\<lparr>part_text = None\<rparr>]\<rparr>,
               finishReason = Some ''MAX_TOKENS''\<rparr>
   \<and> \<not> truthy (candidate_text
                  \<lparr>content = Some \<lparr>parts = Some [\<lparr>part_text = None\<rparr>]\<rparr>,
                   finishReason = Some ''MAX_TOKENS''\<rparr>)
   \<and> statusCode
        (fst (handler
               (sample_env_answering
                  (Inr (Some (sample_response None (Some ''MAX_TOKENS'') None))))
               sample_event)) = 500
   \<and> ConsoleError ''Error in gemini-predict function:''
        (LogError (Error (Some ''The AI's response was too long and was cut off before it could be completed.'')))
       \<in> set (snd (handler
                    (sample_env_answering
                       (Inr (Some (sample_response None (Some ''MAX_TOKENS'') None))))
                    sample_event))
   \<and> inserts (snd (handler
                    (sample_env_answering
                       (Inr (Some (sample_response None (Some ''MAX_TOKENS'') None))))
                    sample_event)) = []\<close>
proof -
  let ?response = "sample_response None (Some ''MAX_TOKENS'') None"
  let ?c = "\<lparr>content = Some \<lparr>parts = Some [\<lparr>part_text = None\<rparr>]\<rparr>,
             finishReason = Some ''MAX_TOKENS''\<rparr>"
  let ?env = "sample_env_answering (Inr (Some ?response))"
  have a: "provider_answer ?env sample_event = Some (Some ?response)"
    by (simp add: handler_defs sample_defs)
  have b: "\<not> truthy (prompt_blockReason (Some ?response))"
    by (simp add: prompt_blockReason_def sample_response_def truthy_def)
  have c: "first_candidate (Some ?response) = Some ?c"
    by (simp add: first_candidate_def sample_response_def)
  have t: "\<not> truthy (candidate_text ?c)"
    by (simp add: candidate_text_def truthy_def)
  from c t have e: "first_candidate (Some ?response) = None
      \<or> (\<exists>c. first_candidate (Some ?response) = Some c \<and> \<not> truthy (candidate_text c))"
    by blast
  have r: "finishReason_or_default (Some ?c) = ''MAX_TOKENS''"
    by (simp add: finishReason_or_default_def or_else_def)
  from empty_response_status [OF a b e] a b c t show ?thesis
    by (simp add: r userMessage_def)
qed

subsection \<open>Methods other than POST\<close>

text \<open>
  C8. A request whose method is not POST is answered with status 405, and the run has no
  effect at all: neither the call to the provider nor the insert (nor any console
  output).
\<close>

theorem method_not_allowed:
  "httpMethod ev \<noteq> ''POST'' \<Longrightarrow>
   statusCode (fst (handler env ev)) = 405 \<and> snd (handler env ev) = []"
  by (simp add: handler_not_POST)

theorem method_not_allowed_witness:
  \<open>httpMethod (sample_event\<lparr>httpMethod := ''GET''\<rparr>) \<noteq> ''POST''
   \<and> statusCode (fst (handler sample_env (sample_event\<lparr>httpMethod := ''GET''\<rparr>))) = 405
   \<and> snd (handler sample_env (sample_event\<lparr>httpMethod := ''GET''\<rparr>)) = []\<close>
  using method_not_allowed [of "sample_event\<lparr>httpMethod := ''GET''\<rparr>" sample_env]
  by (simp add: sample_event_def)

subsection \<open>The order of the two outbound calls\<close>

text \<open>
  C9. Whenever a run makes an insert, the request's body was parsed, the provider was
  called and answered, the answer carries no block reason, its first candidate has
  non-empty text and that text parsed as JSON; the inserted row holds the parsed text; the
  call to the provider stands before the insert in the run, and the run has no other
  insert.
\<close>

theorem insert_after_validation:
  assumes "Insert row \<in> set (snd (handler env ev))"
  shows "\<exists>teamA teamB matchCategory response c predictionText predictionData before after.
           request_fields env ev = Some (teamA, teamB, matchCategory)
           \<and> provider_answer env ev = Some response
           \<and> \<not> truthy (prompt_blockReason response)
           \<and> first_candidate response = Some c
           \<and> candidate_text c = Some predictionText \<and> predictionText \<noteq> []
           \<and> JSON_parse env predictionText = Inr predictionData
           \<and> row = prediction_row teamA teamB matchCategory predictionData
           \<and> snd (handler env ev) = before @ Insert row # after
           \<and> GenerateContent (generateContent_request env teamA teamB matchCategory)
               \<in> set before
           \<and> inserts before = [] \<and> inserts after = []"
proof -
  from assms obtain teamA teamB matchCategory response c predictionText predictionData
    where f: "request_fields env ev = Some (teamA, teamB, matchCategory)"
      and a: "provider_answer env ev = Some response"
      and b: "\<not> truthy (prompt_blockReason response)"
      and c: "first_candidate response = Some c"
      and t: "candidate_text c = Some predictionText" "predictionText \<noteq> []"
      and d: "JSON_parse env predictionText = Inr predictionData"
      and row: "row = prediction_row teamA teamB matchCategory predictionData"
      and h: "handler env ev =
           try_catch env
             (fst (save_prediction env row),
              GenerateContent (generateContent_request env teamA teamB matchCategory)
              # finish_warning c @ snd (save_prediction env row))"
    by (rule run_with_insert)
  define before :: "'a effect list"
    where "before = GenerateContent (generateContent_request env teamA teamB matchCategory)
                    # finish_warning c"
  have "\<exists>after. snd (handler env ev) = before @ Insert row # after \<and> inserts after = []"
  proof (cases "error (supabase_insert env row)")
    case None
    then show ?thesis
      by (simp add: h save_prediction_ok snd_try_catch_Inr before_def inserts_simps)
  next
    case (Some dbError)
    then show ?thesis
      by (simp add: h save_prediction_error snd_try_catch_Inl snd_catch_block before_def
          inserts_simps)
  qed
  then obtain after where l: "snd (handler env ev) = before @ Insert row # after"
    and n: "inserts after = []"
    by blast
  have "GenerateContent (generateContent_request env teamA teamB matchCategory) \<in> set before"
    "inserts before = []"
    by (simp_all add: before_def inserts_simps inserts_finish_warning)
  with f a b c t d row l n show ?thesis by blast
qed

theorem insert_after_validation_witness:
  \<open>Insert (JObject [(''team_a'', JString ''Arsenal''),
                     (''team_b'', JString ''Chelsea''),
                     (''match_category'', JString ''men''),
                     (''prediction_data'', JObject [(''prediction'', JString ''Draw'')]),
                     (''status'', JString ''pending'')])
     \<in> set (snd (handler sample_env sample_event))
   \<and> (\<exists>response predictionText before after.
         provider_answer sample_env sample_event = Some response
         \<and> \<not> truthy (prompt_blockReason response)
         \<and> JSON_parse sample_env predictionText
             = Inr (JObject [(''prediction'', JString ''Draw'')])
         \<and> snd (handler sample_env sample_event)
             = before
               @ Insert (JObject [(''team_a'', JString ''Arsenal''),
                                  (''team_b'', JString ''Chelsea''),
                                  (''match_category'', JString ''men''),
                                  (''prediction_data'', JObject [(''prediction'', JString ''Draw'')]),
                                  (''status'', JString ''pending'')])
               # after
         \<and> inserts before = [] \<and> inserts after = [])\<close>
proof -
  let ?row = "JObject [(''team_a'', JString ''Arsenal''),
                       (''team_b'', JString ''Chelsea''),
                       (''match_category'', JString ''men''),
                       (''prediction_data'', JObject [(''prediction'', JString ''Draw'')]),
                       (''status'', JString ''pending'')] :: string jsval"
  have i: "Insert ?row \<in> set (snd (handler sample_env sample_event))"
    by (simp add: sample_run)
  from insert_after_validation [OF i]
  obtain teamA teamB matchCategory response c predictionText predictionData before after
    where f: "request_fields sample_env sample_event = Some (teamA, teamB, matchCategory)"
      and r: "provider_answer sample_env sample_event = Some response"
        "\<not> truthy (prompt_blockReason response)"
        "JSON_parse sample_env predictionText = Inr predictionData"
        "?row = prediction_row teamA teamB matchCategory predictionData"
        "snd (handler sample_env sample_event) = before @ Insert ?row # after"
        "inserts before = []" "inserts after = []"
    by blast
  from r(4) have "predictionData = JObject [(''prediction'', JString ''Draw'')]"
    by (simp add: prediction_row_def)
  with i r show ?thesis by blast
qed

subsection \<open>The finish reason of a candidate with text\<close>

text \<open>
  C10, as stated, fails for a candidate whose text was cut off: the finish reason is
  \<^verbatim>\<open>MAX_TOKENS\<close>, the text is not empty, \<^verbatim>\<open>JSON.parse\<close> rejects it, and the handler
  answers with an error and makes no insert.
\<close>

theorem truncated_text_counterexample:
  \<open>provider_answer
      (sample_env_answering
         (Inr (Some (sample_response None (Some ''MAX_TOKENS'') (Some ''{"prediction":"Dr'')))))
      sample_event
    = Some (Some (sample_response None (Some ''MAX_TOKENS'') (Some ''{"prediction":"Dr'')))
   \<and> first_candidate
        (Some (sample_response None (Some ''MAX_TOKENS'') (Some ''{"prediction":"Dr'')))
       = Some \<lparr>content = Some \<lparr>parts = Some [\<lparr>part_text = Some ''{"prediction":"Dr''\<rparr>]\<rparr>,
               finishReason = Some ''MAX_TOKENS''\<rparr>
   \<and> fst (handler
             (sample_env_answering
                (Inr (Some (sample_response None (Some ''MAX_TOKENS'')
                              (Some ''{"prediction":"Dr'')))))
             sample_event)
       = \<lparr>statusCode = 500,
          headers = [(''Content-Type'', ''application/json'')],
          body = ''{"error":"[Invalid Response] The AI returned an invalid JSON response. Please try again."}''\<rparr>
   \<and> inserts (snd (handler
             (sample_env_answering
                (Inr (Some (sample_response None (Some ''MAX_TOKENS'')
                              (Some ''{"prediction":"Dr'')))))
             sample_event)) = []\<close>
  by (simp add: handler_defs sample_defs)

text \<open>
  C10, amended. When the provider's answer carries no block reason and its first
  candidate has non-empty text, the handler parses the text whatever the finish reason
  is. If the text does not parse, the response is the \<^verbatim>\<open>[Invalid Response]\<close> error and the
  provider's call is the only outbound call; if it parses, the insert is made and the
  response is that of the insert step. Neither depends on the finish reason, which shows
  in the console only: the run's warnings are none when it is \<^verbatim>\<open>STOP\<close>, and otherwise the
  one warning that names it.
\<close>

theorem finish_reason_only_warns:
  assumes "request_fields env ev = Some (teamA, teamB, matchCategory)"
      and "provider_answer env ev = Some response"
      and "\<not> truthy (prompt_blockReason response)"
      and "first_candidate response = Some c"
      and "candidate_text c = Some predictionText" and "predictionText \<noteq> []"
  shows "(\<forall>e. JSON_parse env predictionText = Inl e \<longrightarrow>
            fst (handler env ev) =
              error_response env 500
                ''[Invalid Response] The AI returned an invalid JSON response. Please try again.''
            \<and> outbound_calls (snd (handler env ev)) =
                [GenerateContent (generateContent_request env teamA teamB matchCategory)])
         \<and> (\<forall>predictionData. JSON_parse env predictionText = Inr predictionData \<longrightarrow>
            fst (handler env ev) =
              fst (try_catch env
                     (save_prediction env
                        (prediction_row teamA teamB matchCategory predictionData)))
            \<and> outbound_calls (snd (handler env ev)) =
                [GenerateContent (generateContent_request env teamA teamB matchCategory),
                 Insert (prediction_row teamA teamB matchCategory predictionData)])
         \<and> warnings (snd (handler env ev)) =
             (if finishReason c = Some ''STOP'' then []
              else [ConsoleWarn (''Gemini generation finished unexpectedly. Reason: ''
                                 @ interpolate (finishReason c))])"
proof -
  note h = handler_provider_answer [OF assms(1,2)]
  have w: "warnings (snd (handler env ev)) =
             (if finishReason c = Some ''STOP'' then []
              else [ConsoleWarn (''Gemini generation finished unexpectedly. Reason: ''
                                 @ interpolate (finishReason c))])"
  proof (cases "JSON_parse env predictionText")
    case (Inl e)
    show ?thesis
      by (simp add: h process_unparseable [OF assms(3-6) Inl] try_catch_filters warnings_simps
          finish_warning_filters) (simp add: finish_warning_def)
  next
    case (Inr predictionData)
    show ?thesis
      by (simp add: h process_parsed [OF assms(3-6) Inr] try_catch_filters warnings_simps
          finish_warning_filters save_prediction_filters) (simp add: finish_warning_def)
  qed
  have "fst (handler env ev) =
          error_response env 500
           ''[Invalid Response] The AI returned an invalid JSON response. Please try again.''
        \<and> outbound_calls (snd (handler env ev)) =
            [GenerateContent (generateContent_request env teamA teamB matchCategory)]"
    if "JSON_parse env predictionText = Inl e" for e
    by (simp add: h process_unparseable [OF assms(3-6) that] try_catch_filters
        outbound_calls_simps finish_warning_filters fst_try_catch_Inl fst_catch_block
        or_else_def classify_invalid_JSON)
  moreover have "fst (handler env ev) =
          fst (try_catch env
                 (save_prediction env (prediction_row teamA teamB matchCategory predictionData)))
        \<and> outbound_calls (snd (handler env ev)) =
            [GenerateContent (generateContent_request env teamA teamB matchCategory),
             Insert (prediction_row teamA teamB matchCategory predictionData)]"
    if "JSON_parse env predictionText = Inr predictionData" for predictionData
  proof -
    have "fst (try_catch env (save_prediction env
             (prediction_row teamA teamB matchCategory predictionData)))
          = fst (try_catch env
              (fst (save_prediction env (prediction_row teamA teamB matchCategory predictionData)),
               GenerateContent (generateContent_request env teamA teamB matchCategory)
               # finish_warning c
               @ snd (save_prediction env
                        (prediction_row teamA teamB matchCategory predictionData))))"
    proof (cases "save_prediction env (prediction_row teamA teamB matchCategory predictionData)")
      case (Pair r log)
      show ?thesis
        unfolding Pair fst_conv snd_conv by (rule fst_try_catch_log)
    qed
    then show ?thesis
      by (simp add: h process_parsed [OF assms(3-6) that] try_catch_filters
          outbound_calls_simps finish_warning_filters save_prediction_filters)
  qed
  ultimately show ?thesis using w by blast
qed

theorem finish_reason_only_warns_witness:
  \<open>request_fields
      (sample_env_answering
         (Inr (Some (sample_response None (Some ''MAX_TOKENS'')
                       (Some ''{"prediction":"Draw"}'')))))
      sample_event
    = Some (JString ''Arsenal'', JString ''Chelsea'', JString ''men'')
   \<and> provider_answer
      (sample_env_answering
         (Inr (Some (sample_response None (Some ''MAX_TOKENS'')
                       (Some ''{"prediction":"Draw"}'')))))
      sample_event
    = Some (Some (sample_response None (Some ''MAX_TOKENS'') (Some ''{"prediction":"Draw"}'')))
   \<and> \<not> truthy (prompt_blockReason
         (Some (sample_response None (Some ''MAX_TOKENS'') (Some ''{"prediction":"Draw"}''))))
   \<and> fst (handler
             (sample_env_answering
                (Inr (Some (sample_response None (Some ''MAX_TOKENS'')
                              (Some ''{"prediction":"Draw"}'')))))
             sample_event)
       = \<lparr>statusCode = 200,
          headers = [(''Content-Type'', ''application/json'')],
          body = ''{"id":1,"team_a":"Arsenal","team_b":"Chelsea","match_category":"men","prediction_data":{"prediction":"Draw"},"status":"pending"}''\<rparr>
   \<and> outbound_calls (snd (handler
             (sample_env_answering
                (Inr (Some (sample_response None (Some ''MAX_TOKENS'')
                              (Some ''{"prediction":"Draw"}'')))))
             sample_event))
       = [GenerateContent
            \<lparr>model = ''gemini-2.5-pro'',
             contents = ''Analyze the upcoming men's soccer match between Arsenal (Home) and Chelsea (Away). Provide a detailed prediction including analysis, key stats, betting tips, and player information.'',
             config = \<lparr>responseMimeType = ''application/json'',
                     responseSchema = responseSchema\<rparr>\<rparr>,
          Insert (JObject [(''team_a'', JString ''Arsenal''),
                           (''team_b'', JString ''Chelsea''),
                           (''match_category'', JString ''men''),
                           (''prediction_data'', JObject [(''prediction'', JString ''Draw'')]),
                           (''status'', JString ''pending'')])]
   \<and> warnings (snd (handler
             (sample_env_answering
                (Inr (Some (sample_response None (Some ''MAX_TOKENS'')
                              (Some ''{"prediction":"Draw"}'')))))
             sample_event))
       = [ConsoleWarn ''Gemini generation finished unexpectedly. Reason: MAX_TOKENS'']\<close>
proof -
  let ?response = \<open>sample_response None (Some ''MAX_TOKENS'') (Some ''{"prediction":"Draw"}'')\<close>
  let ?c = \<open>\<lparr>content = Some \<lparr>parts = Some [\<lparr>part_text = Some ''{"prediction":"Draw"}''\<rparr>]\<rparr>,
             finishReason = Some ''MAX_TOKENS''\<rparr>\<close>
  let ?env = "sample_env_answering (Inr (Some ?response))"
  have f: "request_fields ?env sample_event
     = Some (JString ''Arsenal'', JString ''Chelsea'', JString ''men'')"
    by (simp add: handler_defs sample_defs)
  have a: "provider_answer ?env sample_event = Some (Some ?response)"
    by (simp add: handler_defs sample_defs)
  have b: "\<not> truthy (prompt_blockReason (Some ?response))"
    by (simp add: prompt_blockReason_def sample_response_def truthy_def)
  have c: "first_candidate (Some ?response) = Some ?c"
    by (simp add: first_candidate_def sample_response_def)
  have t: \<open>candidate_text ?c = Some ''{"prediction":"Draw"}''\<close>
    by (simp add: candidate_text_def)
  have n: \<open>''{"prediction":"Draw"}'' \<noteq> []\<close>
    by simp
  have d: \<open>JSON_parse ?env ''{"prediction":"Draw"}''
     = Inr (JObject [(''prediction'', JString ''Draw'')])\<close>
    by (simp add: sample_defs)
  from finish_reason_only_warns [OF f a b c t n] d f a b show ?thesis
    by (simp add: handler_defs sample_defs)
qed

end
